theory Spec2Isabelle
  imports Complex_Main
begin

section \<open>The paragraph-analysis service\<close>

text \<open>
  The repository has one source file, \<^verbatim>\<open>services/paragraph-analysis/api.py\<close>: a Flask
  application with a single view function, \<^verbatim>\<open>analyze_paragraph\<close>, bound to
  \<^verbatim>\<open>POST /paragraph/analyze\<close>. The view reads the parsed JSON body of the request,
  looks up its \<^verbatim>\<open>paragraphs\<close> member and answers with one fixed record for each
  index below \<^verbatim>\<open>len(paragraphs)\<close>.
\<close>

subsection \<open>Python values\<close>

text \<open>
  A Python \<^verbatim>\<open>str\<close> is a sequence of code points and \<^verbatim>\<open>len\<close> counts code points, so a
  string is a list of code points here, not a list of bytes. The string literals of the
  source are ASCII; \<open>str_of\<close> reads such a literal as a Python string.
\<close>

type_synonym codepoint = nat
type_synonym pystr = "codepoint list"

definition str_of :: "string \<Rightarrow> pystr" where
  "str_of s = map of_char s"

text \<open>
  The values \<^verbatim>\<open>request.get_json()\<close> can return, and the values the view builds: what
  the \<^verbatim>\<open>json\<close> module decodes a JSON text to. A \<^verbatim>\<open>dict\<close> is the list of its items in
  insertion order; the keys of a Python dict are pairwise distinct (\<open>wf_pyval\<close>), and
  lookup is by key. A \<^verbatim>\<open>float\<close> is the number it denotes; the view does no arithmetic on
  floats, it only emits the literal \<^verbatim>\<open>0.5\<close>.
\<close>

datatype pyval =
    PNone
  | PBool bool
  | PInt int
  | PFloat real
  | PStr pystr
  | PList "pyval list"
  | PDict "(pystr \<times> pyval) list"

fun wf_pyval :: "pyval \<Rightarrow> bool" where
  "wf_pyval (PList xs) = list_all wf_pyval xs"
| "wf_pyval (PDict kvs) = (distinct (map fst kvs) \<and> list_all (\<lambda>kv. wf_pyval (snd kv)) kvs)"
| "wf_pyval _ = True"

text \<open>The two exceptions the view can raise.\<close>

datatype py_error = AttributeError | TypeError

text \<open>
  \<^verbatim>\<open>d.get(key, default)\<close> on a dict. On any other of the values above the attribute
  \<^verbatim>\<open>get\<close> does not exist and the attribute lookup raises \<^verbatim>\<open>AttributeError\<close>.
\<close>

definition dict_get :: "(pystr \<times> pyval) list \<Rightarrow> pystr \<Rightarrow> pyval \<Rightarrow> pyval" where
  "dict_get kvs k d = (case map_of kvs k of None \<Rightarrow> d | Some v \<Rightarrow> v)"

fun py_get :: "pyval \<Rightarrow> pystr \<Rightarrow> pyval \<Rightarrow> py_error + pyval" where
  "py_get (PDict kvs) k d = Inr (dict_get kvs k d)"
| "py_get PNone k d = Inl AttributeError"
| "py_get (PBool b) k d = Inl AttributeError"
| "py_get (PInt n) k d = Inl AttributeError"
| "py_get (PFloat x) k d = Inl AttributeError"
| "py_get (PStr s) k d = Inl AttributeError"
| "py_get (PList xs) k d = Inl AttributeError"

text \<open>
  \<^verbatim>\<open>len(x)\<close>: defined for \<^verbatim>\<open>str\<close> (code points), \<^verbatim>\<open>list\<close> (elements) and \<^verbatim>\<open>dict\<close>
  (items); \<^verbatim>\<open>None\<close>, \<^verbatim>\<open>bool\<close>, \<^verbatim>\<open>int\<close> and \<^verbatim>\<open>float\<close> have no \<^verbatim>\<open>__len__\<close> and
  \<^verbatim>\<open>len\<close> raises \<^verbatim>\<open>TypeError\<close>.
\<close>

fun py_len :: "pyval \<Rightarrow> py_error + nat" where
  "py_len (PStr s) = Inr (length s)"
| "py_len (PList xs) = Inr (length xs)"
| "py_len (PDict kvs) = Inr (length kvs)"
| "py_len PNone = Inl TypeError"
| "py_len (PBool b) = Inl TypeError"
| "py_len (PInt n) = Inl TypeError"
| "py_len (PFloat x) = Inl TypeError"

text \<open>\<^verbatim>\<open>range(n)\<close> for \<open>n \<ge> 0\<close>: the integers \<open>0, \<dots>, n - 1\<close> in increasing order.\<close>

definition py_range :: "nat \<Rightarrow> int list" where
  "py_range n = map int [0..<n]"

subsection \<open>The view function\<close>

text \<open>
  The inner dict literal of lines 15--23, with the keys spelled as the source spells
  them, in the source's order.
\<close>

definition analysisData :: pyval where
  "analysisData = PDict
     [(str_of ''sentimentScore'', PFloat 0.5),
      (str_of ''readibilityScore'', PFloat 0.5),
      (str_of ''topics'', PList [PStr (str_of ''topic1''), PStr (str_of ''topic2'')]),
      (str_of ''summary'', PStr (str_of ''summary'')),
      (str_of ''suggestions'',
         PList [PStr (str_of ''suggestion1''), PStr (str_of ''suggestion2'')]),
      (str_of ''references'',
         PList [PStr (str_of ''reference1''), PStr (str_of ''reference2'')]),
      (str_of ''tags'', PList [PStr (str_of ''tag1''), PStr (str_of ''tag2'')])]"

text \<open>The element expression of the list comprehension, lines 13--24, for one \<^verbatim>\<open>i\<close>.\<close>

definition analysisResult :: "int \<Rightarrow> pyval" where
  "analysisResult i =
     PDict [(str_of ''index'', PInt i), (str_of ''analysisData'', analysisData)]"

text \<open>
  The body of \<^verbatim>\<open>analyze_paragraph\<close>, lines 9--28. Its argument is the value of
  \<^verbatim>\<open>request.get_json()\<close>; its result is the exception that escapes, or the value handed
  to \<^verbatim>\<open>jsonify\<close>, which is the JSON document of the response.
\<close>

definition analyze_paragraph :: "pyval \<Rightarrow> py_error + pyval" where
  "analyze_paragraph data =
     (case py_get data (str_of ''paragraphs'') (PList []) of
        Inl e \<Rightarrow> Inl e
      | Inr paragraphs \<Rightarrow>
          (case py_len paragraphs of
             Inl e \<Rightarrow> Inl e
           | Inr n \<Rightarrow>
               Inr (PDict [(str_of ''analysisResults'',
                            PList (map analysisResult (py_range n)))])))"


subsection \<open>Reading a response\<close>

text \<open>
  What a client sees of a JSON object: the value of a member, if the object has it. A
  value that is not an object has no members.
\<close>

fun json_member :: "pyval \<Rightarrow> pystr \<Rightarrow> pyval option" where
  "json_member (PDict kvs) k = map_of kvs k"
| "json_member PNone k = None"
| "json_member (PBool b) k = None"
| "json_member (PInt n) k = None"
| "json_member (PFloat x) k = None"
| "json_member (PStr s) k = None"
| "json_member (PList xs) k = None"

text \<open>The keys of a JSON object, in order; a value that is not an object has none.\<close>

fun json_keys :: "pyval \<Rightarrow> pystr list" where
  "json_keys (PDict kvs) = map fst kvs"
| "json_keys PNone = []"
| "json_keys (PBool b) = []"
| "json_keys (PInt n) = []"
| "json_keys (PFloat x) = []"
| "json_keys (PStr s) = []"
| "json_keys (PList xs) = []"

text \<open>\<^verbatim>\<open>isinstance(x, dict)\<close>: the request body is a JSON object.\<close>

fun is_dict :: "pyval \<Rightarrow> bool" where
  "is_dict (PDict kvs) = True"
| "is_dict PNone = False"
| "is_dict (PBool b) = False"
| "is_dict (PInt n) = False"
| "is_dict (PFloat x) = False"
| "is_dict (PStr s) = False"
| "is_dict (PList xs) = False"

text \<open>The JSON values that decode to a Python object with a length: string, array, object.\<close>

fun sized :: "pyval \<Rightarrow> bool" where
  "sized (PStr s) = True"
| "sized (PList xs) = True"
| "sized (PDict kvs) = True"
| "sized PNone = False"
| "sized (PBool b) = False"
| "sized (PInt n) = False"
| "sized (PFloat x) = False"

subsection \<open>The view inside Flask\<close>

text \<open>
  Flask sends the value a view returns with status 200. The source registers no error
  handler, so an exception that escapes the view is answered with status 500 and no JSON
  document.
\<close>

datatype http_response = HttpResponse (status_code: nat) (json_body: "pyval option")

definition flask_response :: "py_error + pyval \<Rightarrow> http_response" where
  "flask_response r =
     (case r of Inl e \<Rightarrow> HttpResponse 500 None | Inr v \<Rightarrow> HttpResponse 200 (Some v))"

subsection \<open>The analysis data of the specification\<close>

text \<open>
  The \<^verbatim>\<open>analysisData\<close> object as the specification gives it in its response example
  (section 6) and in its data model (section 3), written from the specification's
  words, to be compared with the dict literal of the source.
\<close>

definition spec_analysisData :: pyval where
  "spec_analysisData = PDict
     [(str_of ''sentimentScore'', PFloat 0.5),
      (str_of ''readabilityScore'', PFloat 0.5),
      (str_of ''topics'', PList [PStr (str_of ''topic1''), PStr (str_of ''topic2'')]),
      (str_of ''summary'', PStr (str_of ''summary'')),
      (str_of ''suggestions'',
         PList [PStr (str_of ''suggestion1''), PStr (str_of ''suggestion2'')]),
      (str_of ''references'',
         PList [PStr (str_of ''reference1''), PStr (str_of ''reference2'')]),
      (str_of ''tags'', PList [PStr (str_of ''tag1''), PStr (str_of ''tag2'')])]"

section \<open>Properties of the view\<close>

subsection \<open>Auxiliary facts\<close>

lemma str_of_eq_iff [simp]: "str_of a = str_of b \<longleftrightarrow> a = b"
  unfolding str_of_def by (rule inj_map_eq_map) (simp add: inj_on_def)

lemma length_py_range [simp]: "length (py_range n) = n"
  by (simp add: py_range_def)

lemma nth_py_range [simp]: "i < n \<Longrightarrow> py_range n ! i = int i"
  by (simp add: py_range_def)

lemma py_range_empty_iff [simp]: "py_range n = [] \<longleftrightarrow> n = 0"
  by (simp add: py_range_def)

lemma analyze_paragraph_dict:
  "analyze_paragraph (PDict kvs) =
     (case py_len (dict_get kvs (str_of ''paragraphs'') (PList [])) of
        Inl e \<Rightarrow> Inl e
      | Inr n \<Rightarrow>
          Inr (PDict [(str_of ''analysisResults'', PList (map analysisResult (py_range n)))]))"
  by (simp add: analyze_paragraph_def)

lemma analyze_paragraph_list:
  "map_of kvs (str_of ''paragraphs'') = Some (PList ps) \<Longrightarrow>
   analyze_paragraph (PDict kvs) =
     Inr (PDict [(str_of ''analysisResults'',
                  PList (map analysisResult (py_range (length ps))))])"
  by (simp add: analyze_paragraph_dict dict_get_def)

lemma analysisResult_member_data:
  "r \<in> set (map analysisResult is) \<Longrightarrow>
   json_member r (str_of ''analysisData'') = Some analysisData"
  by (auto simp add: analysisResult_def)

subsection \<open>One record per paragraph, in order\<close>

text \<open>
  Claim C1. When the request body is a JSON object whose \<^verbatim>\<open>paragraphs\<close> member is a
  list of \<open>N\<close> elements, the view returns an object whose \<^verbatim>\<open>analysisResults\<close> member is
  a list of exactly \<open>N\<close> records, and the record at position \<open>i\<close> has \<^verbatim>\<open>index\<close> equal
  to \<open>i\<close>, for every \<open>i\<close> below \<open>N\<close>.
\<close>

theorem analyze_paragraph_one_record_per_paragraph:
  assumes "map_of kvs (str_of ''paragraphs'') = Some (PList ps)"
  shows "\<exists>rs. analyze_paragraph (PDict kvs)
                 = Inr (PDict [(str_of ''analysisResults'', PList rs)])
           \<and> length rs = length ps
           \<and> (\<forall>i < length ps. json_member (rs ! i) (str_of ''index'') = Some (PInt (int i)))"
  using assms by (simp add: analyze_paragraph_dict dict_get_def analysisResult_def)

theorem analyze_paragraph_one_record_per_paragraph_witness:
  "map_of [(str_of ''paragraphs'',
            PList [PStr (str_of ''A''), PStr (str_of ''B''), PStr (str_of ''C'')])]
     (str_of ''paragraphs'')
     = Some (PList [PStr (str_of ''A''), PStr (str_of ''B''), PStr (str_of ''C'')])
   \<and> (\<exists>rs. analyze_paragraph
              (PDict [(str_of ''paragraphs'',
                       PList [PStr (str_of ''A''), PStr (str_of ''B''), PStr (str_of ''C'')])])
              = Inr (PDict [(str_of ''analysisResults'', PList rs)])
          \<and> length rs = length [PStr (str_of ''A''), PStr (str_of ''B''), PStr (str_of ''C'')]
          \<and> (\<forall>i < length [PStr (str_of ''A''), PStr (str_of ''B''), PStr (str_of ''C'')].
                json_member (rs ! i) (str_of ''index'') = Some (PInt (int i))))"
proof -
  have h: "map_of [(str_of ''paragraphs'',
                    PList [PStr (str_of ''A''), PStr (str_of ''B''), PStr (str_of ''C'')])]
             (str_of ''paragraphs'')
           = Some (PList [PStr (str_of ''A''), PStr (str_of ''B''), PStr (str_of ''C'')])"
    by simp
  from h analyze_paragraph_one_record_per_paragraph [OF h] show ?thesis
    by (rule conjI)
qed

subsection \<open>The fixed analysis data\<close>

text \<open>
  Claim C2. For every non-empty list of paragraphs, every record's \<^verbatim>\<open>analysisData\<close>
  equals the fixed object of the specification's example. The source does not return
  that object: on the body \<^verbatim>\<open>{"paragraphs": ["Hello world."]}\<close> the one record's
  \<^verbatim>\<open>analysisData\<close> differs from the specification's object, as a value and in the
  member \<^verbatim>\<open>readabilityScore\<close>, which the specification's object has and the returned
  one lacks (line 17 spells the key \<^verbatim>\<open>readibilityScore\<close>). On the six members the
  claim lists, \<^verbatim>\<open>sentimentScore\<close>, \<^verbatim>\<open>topics\<close>, \<^verbatim>\<open>summary\<close>, \<^verbatim>\<open>suggestions\<close>,
  \<^verbatim>\<open>references\<close> and \<^verbatim>\<open>tags\<close>, the two objects agree.
\<close>

theorem analyze_paragraph_analysisData_not_spec_example:
  "analyze_paragraph (PDict [(str_of ''paragraphs'', PList [PStr (str_of ''Hello world.'')])])
     = Inr (PDict [(str_of ''analysisResults'',
                    PList [PDict [(str_of ''index'', PInt 0),
                                  (str_of ''analysisData'', analysisData)]])])
   \<and> analysisData \<noteq> spec_analysisData
   \<and> json_keys analysisData \<noteq> json_keys spec_analysisData
   \<and> json_member spec_analysisData (str_of ''readabilityScore'') = Some (PFloat 0.5)
   \<and> json_member analysisData (str_of ''readabilityScore'') = None
   \<and> map (json_member analysisData)
         [str_of ''sentimentScore'', str_of ''topics'', str_of ''summary'',
          str_of ''suggestions'', str_of ''references'', str_of ''tags'']
       = map (json_member spec_analysisData)
           [str_of ''sentimentScore'', str_of ''topics'', str_of ''summary'',
            str_of ''suggestions'', str_of ''references'', str_of ''tags'']"
  by (simp add: analyze_paragraph_dict dict_get_def py_range_def analysisResult_def
      analysisData_def spec_analysisData_def)

text \<open>
  Claim C3. Each returned \<^verbatim>\<open>analysisData\<close> object has a member named
  \<^verbatim>\<open>readabilityScore\<close> with value 0.5. The source spells the key
  \<^verbatim>\<open>readibilityScore\<close> (line 17): on the body \<^verbatim>\<open>{"paragraphs": ["Hello world."]}\<close> the
  one record returned has no member \<^verbatim>\<open>readabilityScore\<close>, and the value 0.5 sits under
  the misspelled key.
\<close>

theorem analyze_paragraph_readability_key_misspelled:
  "analyze_paragraph (PDict [(str_of ''paragraphs'', PList [PStr (str_of ''Hello world.'')])])
     = Inr (PDict [(str_of ''analysisResults'',
                    PList [PDict [(str_of ''index'', PInt 0),
                                  (str_of ''analysisData'', analysisData)]])])
   \<and> json_member analysisData (str_of ''readabilityScore'') = None
   \<and> json_member analysisData (str_of ''readibilityScore'') = Some (PFloat 0.5)"
  by (simp add: analyze_paragraph_dict dict_get_def py_range_def analysisResult_def
      analysisData_def)

subsection \<open>Independence of the paragraphs' content\<close>

text \<open>
  Claim C4. Two request bodies whose \<^verbatim>\<open>paragraphs\<close> lists have the same length get the
  same response, whatever the lists contain and whatever else the bodies hold; and every
  record of every response carries the same \<^verbatim>\<open>analysisData\<close> object.
\<close>

theorem analyze_paragraph_content_independent:
  assumes "map_of kvs1 (str_of ''paragraphs'') = Some (PList ps1)"
    and "map_of kvs2 (str_of ''paragraphs'') = Some (PList ps2)"
    and "length ps1 = length ps2"
  shows "analyze_paragraph (PDict kvs1) = analyze_paragraph (PDict kvs2)
     \<and> (\<exists>rs. analyze_paragraph (PDict kvs1)
                = Inr (PDict [(str_of ''analysisResults'', PList rs)])
            \<and> (\<forall>r \<in> set rs. json_member r (str_of ''analysisData'') = Some analysisData))"
proof -
  let ?rs = "map analysisResult (py_range (length ps1))"
  have r1: "analyze_paragraph (PDict kvs1)
              = Inr (PDict [(str_of ''analysisResults'', PList ?rs)])"
    using assms(1) by (rule analyze_paragraph_list)
  have r2: "analyze_paragraph (PDict kvs2)
              = Inr (PDict [(str_of ''analysisResults'', PList ?rs)])"
    using analyze_paragraph_list [OF assms(2)] assms(3) by simp
  have each: "json_member r (str_of ''analysisData'') = Some analysisData"
    if "r \<in> set ?rs" for r
    using that by (rule analysisResult_member_data)
  show ?thesis
    using r1 r2 each by auto
qed

theorem analyze_paragraph_content_independent_witness:
  "analyze_paragraph
     (PDict [(str_of ''paragraphs'', PList [PStr (str_of ''A''), PStr (str_of ''B'')])])
   = analyze_paragraph
       (PDict [(str_of ''lang'', PStr (str_of ''en'')),
               (str_of ''paragraphs'', PList [PInt 7, PNone])])"
proof -
  have h1: "map_of [(str_of ''paragraphs'', PList [PStr (str_of ''A''), PStr (str_of ''B'')])]
              (str_of ''paragraphs'')
            = Some (PList [PStr (str_of ''A''), PStr (str_of ''B'')])"
    by simp
  have h2: "map_of [(str_of ''lang'', PStr (str_of ''en'')),
                    (str_of ''paragraphs'', PList [PInt 7, PNone])]
              (str_of ''paragraphs'')
            = Some (PList [PInt 7, PNone])"
    by simp
  have h3: "length [PStr (str_of ''A''), PStr (str_of ''B'')] = length [PInt 7, PNone]"
    by simp
  from analyze_paragraph_content_independent [OF h1 h2 h3] show ?thesis
    by (rule conjunct1)
qed

subsection \<open>Missing and empty paragraphs\<close>

text \<open>
  Claim C5. When the request body is a JSON object without a \<^verbatim>\<open>paragraphs\<close> member, or
  with \<^verbatim>\<open>paragraphs\<close> equal to the empty list, the view raises nothing and returns
  \<^verbatim>\<open>{"analysisResults": []}\<close>.
\<close>

theorem analyze_paragraph_missing_or_empty:
  assumes "map_of kvs (str_of ''paragraphs'') = None
           \<or> map_of kvs (str_of ''paragraphs'') = Some (PList [])"
  shows "analyze_paragraph (PDict kvs) = Inr (PDict [(str_of ''analysisResults'', PList [])])"
  using assms by (auto simp add: analyze_paragraph_dict dict_get_def py_range_def)

theorem analyze_paragraph_missing_or_empty_witness:
  "analyze_paragraph (PDict []) = Inr (PDict [(str_of ''analysisResults'', PList [])])
   \<and> analyze_paragraph (PDict [(str_of ''paragraphs'', PList [])])
       = Inr (PDict [(str_of ''analysisResults'', PList [])])"
  using analyze_paragraph_missing_or_empty [of "[]"]
    analyze_paragraph_missing_or_empty [of "[(str_of ''paragraphs'', PList [])]"]
  by simp

subsection \<open>Values of \<^verbatim>\<open>paragraphs\<close> that are not lists\<close>

text \<open>
  Claim C6, as stated: for a JSON-object body the view raises no error whatever the
  value of \<^verbatim>\<open>paragraphs\<close> is. It fails for the values without a length: on the bodies
  \<^verbatim>\<open>{"paragraphs": 5}\<close>, \<^verbatim>\<open>{"paragraphs": null}\<close> and \<^verbatim>\<open>{"paragraphs": true}\<close> the call
  \<^verbatim>\<open>len(paragraphs)\<close> raises \<^verbatim>\<open>TypeError\<close>.
\<close>

theorem analyze_paragraph_unsized_paragraphs_raises:
  "analyze_paragraph (PDict [(str_of ''paragraphs'', PInt 5)]) = Inl TypeError
   \<and> analyze_paragraph (PDict [(str_of ''paragraphs'', PNone)]) = Inl TypeError
   \<and> analyze_paragraph (PDict [(str_of ''paragraphs'', PBool True)]) = Inl TypeError"
  by (simp add: analyze_paragraph_dict dict_get_def)

text \<open>
  Claim C6, amended: for a JSON-object body whose \<^verbatim>\<open>paragraphs\<close> member is absent, or is
  a list (of any elements), a string or an object, the view raises no error and returns
  an object with the single member \<^verbatim>\<open>analysisResults\<close>, a list of records each built
  by the comprehension's element expression; neither the elements nor their number are
  looked at.
\<close>

theorem analyze_paragraph_sized_paragraphs_ok:
  assumes "case map_of kvs (str_of ''paragraphs'') of None \<Rightarrow> True | Some p \<Rightarrow> sized p"
  shows "\<exists>rs. analyze_paragraph (PDict kvs)
                 = Inr (PDict [(str_of ''analysisResults'', PList rs)])
           \<and> (\<forall>x \<in> set rs. \<exists>i. x = analysisResult i)"
proof (cases "map_of kvs (str_of ''paragraphs'')")
  case None
  then show ?thesis
    by (simp add: analyze_paragraph_dict dict_get_def py_range_def)
next
  case (Some p)
  with assms have "sized p"
    by simp
  then obtain n where "py_len p = Inr n"
    by (cases p) simp_all
  with Some show ?thesis
    by (auto simp add: analyze_paragraph_dict dict_get_def)
qed

theorem analyze_paragraph_sized_paragraphs_ok_witness:
  "\<exists>rs. analyze_paragraph
           (PDict [(str_of ''paragraphs'', PList [PInt 1, PNone, PDict [], PList []])])
           = Inr (PDict [(str_of ''analysisResults'', PList rs)])
         \<and> (\<forall>x \<in> set rs. \<exists>i. x = analysisResult i)"
proof -
  have h: "case map_of [(str_of ''paragraphs'', PList [PInt 1, PNone, PDict [], PList []])]
                  (str_of ''paragraphs'')
           of None \<Rightarrow> True | Some p \<Rightarrow> sized p"
    by simp
  from analyze_paragraph_sized_paragraphs_ok [OF h] show ?thesis .
qed

text \<open>
  Claim C8. When \<^verbatim>\<open>paragraphs\<close> is a string, the number of records is the length of the
  string (its number of code points); when it is a JSON object, the number of records is
  the number of its items, which is the number of its keys, the keys of a dict being
  distinct.
\<close>

theorem analyze_paragraph_len_of_sized:
  assumes "map_of kvs (str_of ''paragraphs'') = Some p"
  shows "(p = PStr s \<longrightarrow>
            (\<exists>rs. analyze_paragraph (PDict kvs)
                     = Inr (PDict [(str_of ''analysisResults'', PList rs)])
                 \<and> length rs = length s))
       \<and> (p = PDict items \<longrightarrow>
            (\<exists>rs. analyze_paragraph (PDict kvs)
                     = Inr (PDict [(str_of ''analysisResults'', PList rs)])
                 \<and> length rs = length (json_keys p)
                 \<and> (wf_pyval p \<longrightarrow> length rs = card (set (json_keys p)))))"
proof -
  have keys: "length items = card (set (map fst items))" if "distinct (map fst items)"
    using distinct_card [OF that] by simp
  show ?thesis
    using assms keys by (auto simp add: analyze_paragraph_dict dict_get_def)
qed

theorem analyze_paragraph_len_of_sized_witness:
  "(\<exists>rs. analyze_paragraph (PDict [(str_of ''paragraphs'', PStr (str_of ''abc''))])
           = Inr (PDict [(str_of ''analysisResults'', PList rs)])
         \<and> length rs = 3)
   \<and> (\<exists>rs. analyze_paragraph
              (PDict [(str_of ''paragraphs'',
                       PDict [(str_of ''a'', PInt 1), (str_of ''b'', PInt 2)])])
              = Inr (PDict [(str_of ''analysisResults'', PList rs)])
            \<and> length rs = 2
            \<and> length rs = card {str_of ''a'', str_of ''b''})"
proof -
  have h1: "map_of [(str_of ''paragraphs'', PStr (str_of ''abc''))] (str_of ''paragraphs'')
            = Some (PStr (str_of ''abc''))"
    by simp
  have h2: "map_of [(str_of ''paragraphs'',
                     PDict [(str_of ''a'', PInt 1), (str_of ''b'', PInt 2)])]
              (str_of ''paragraphs'')
            = Some (PDict [(str_of ''a'', PInt 1), (str_of ''b'', PInt 2)])"
    by simp
  have wf: "wf_pyval (PDict [(str_of ''a'', PInt 1), (str_of ''b'', PInt 2)])"
    by simp
  have len: "length (str_of ''abc'') = 3"
    by (simp add: str_of_def)
  from analyze_paragraph_len_of_sized [OF h1, of "str_of ''abc''"] len
  have a: "\<exists>rs. analyze_paragraph (PDict [(str_of ''paragraphs'', PStr (str_of ''abc''))])
                  = Inr (PDict [(str_of ''analysisResults'', PList rs)])
                \<and> length rs = 3"
    by simp
  from analyze_paragraph_len_of_sized
         [OF h2, of _ "[(str_of ''a'', PInt 1), (str_of ''b'', PInt 2)]"] wf
  have b: "\<exists>rs. analyze_paragraph
                   (PDict [(str_of ''paragraphs'',
                            PDict [(str_of ''a'', PInt 1), (str_of ''b'', PInt 2)])])
                  = Inr (PDict [(str_of ''analysisResults'', PList rs)])
                \<and> length rs = 2
                \<and> length rs = card {str_of ''a'', str_of ''b''}"
    by (simp add: numeral_2_eq_2)
  from a b show ?thesis
    by (rule conjI)
qed

subsection \<open>Bodies that are not JSON objects\<close>

text \<open>
  Claim C9. When the parsed request body is not a JSON object (a list, a string, a
  number, \<^verbatim>\<open>null\<close> or a boolean), the lookup of \<^verbatim>\<open>.get\<close> raises \<^verbatim>\<open>AttributeError\<close>,
  and the request is answered with status 500 and no \<^verbatim>\<open>analysisResults\<close>.
\<close>

theorem analyze_paragraph_non_object_body:
  assumes "\<not> is_dict data"
  shows "analyze_paragraph data = Inl AttributeError
         \<and> flask_response (analyze_paragraph data) = HttpResponse 500 None"
  using assms by (cases data) (simp_all add: analyze_paragraph_def flask_response_def)

theorem analyze_paragraph_non_object_body_witness:
  "\<not> is_dict (PList [PStr (str_of ''A'')])
   \<and> analyze_paragraph (PList [PStr (str_of ''A'')]) = Inl AttributeError
   \<and> flask_response (analyze_paragraph (PList [PStr (str_of ''A'')])) = HttpResponse 500 None"
proof -
  have h: "\<not> is_dict (PList [PStr (str_of ''A'')])"
    by simp
  from h analyze_paragraph_non_object_body [OF h] show ?thesis
    by (rule conjI)
qed

subsection \<open>The shape of a successful response\<close>

text \<open>
  Claim C10. Every value the view returns is a JSON object with exactly one key,
  \<^verbatim>\<open>analysisResults\<close>, whose value is a list, and every element of that list is an object
  with exactly the two keys \<^verbatim>\<open>index\<close> and \<^verbatim>\<open>analysisData\<close>.
\<close>

theorem analyze_paragraph_response_shape:
  assumes "analyze_paragraph data = Inr r"
  shows "\<exists>rs. r = PDict [(str_of ''analysisResults'', PList rs)]
           \<and> json_keys r = [str_of ''analysisResults'']
           \<and> (\<forall>x \<in> set rs. is_dict x
                  \<and> json_keys x = [str_of ''index'', str_of ''analysisData''])"
proof (cases data)
  case (PDict kvs)
  with assms show ?thesis
    by (auto simp add: analyze_paragraph_dict analysisResult_def split: sum.splits)
qed (use assms in \<open>simp_all add: analyze_paragraph_def\<close>)

theorem analyze_paragraph_response_shape_witness:
  "\<exists>rs. PDict [(str_of ''analysisResults'',
                PList (map analysisResult
                         (py_range (length [PStr (str_of ''A''), PStr (str_of ''B'')]))))]
          = PDict [(str_of ''analysisResults'', PList rs)]
        \<and> (\<forall>x \<in> set rs. is_dict x
               \<and> json_keys x = [str_of ''index'', str_of ''analysisData''])"
proof -
  have h: "analyze_paragraph
             (PDict [(str_of ''paragraphs'', PList [PStr (str_of ''A''), PStr (str_of ''B'')])])
           = Inr (PDict [(str_of ''analysisResults'',
                          PList (map analysisResult
                                   (py_range (length [PStr (str_of ''A''),
                                                      PStr (str_of ''B'')]))))])"
    by (rule analyze_paragraph_list) simp
  from analyze_paragraph_response_shape [OF h] show ?thesis
    by blast
qed

end
